theory Spec2Isabelle
  imports Main
begin

section \<open>Billing state reconciliation of the subscription dashboard\<close>

text \<open>
  A shallow embedding of the Stripe webhook handlers (routes/webhooks) and of the
  subscription lifecycle routes (routes/subscriptions) over the tables of the Prisma
  schema.  Every \<open>await prisma...\<close> and \<open>await stripe...\<close> of the source is one
  step of an exception-and-state computation; \<open>try/catch\<close> is \<open>try_catch\<close>.
\<close>

subsection \<open>The Prisma schema\<close>

datatype SubscriptionStatus =
  ACTIVE | CANCELED | INCOMPLETE | INCOMPLETE_EXPIRED | PAST_DUE | TRIALING | UNPAID

text \<open>The schema's PaymentStatus; its CANCELED is spelt \<open>PAYMENT_CANCELED\<close> here,
  the name being taken by the subscription status.\<close>

datatype PaymentStatus =
  SUCCEEDED | PENDING | FAILED | PAYMENT_CANCELED | REFUNDED

text \<open>Dates are milliseconds since the epoch, as JavaScript's \<open>Date\<close> holds them.\<close>

type_synonym date = int

text \<open>The columns of User that the modelled routes read or write.\<close>

record User =
  user_id :: string
  email :: string
  firstName :: string
  lastName :: string
  stripeCustomerId :: "string option"
  companyId :: "string option"

record Plan =
  plan_id :: string
  plan_name :: string
  stripePriceId :: string

text \<open>Subscription, without the columns \<open>createdAt\<close> and \<open>updatedAt\<close> that the
  database maintains on its own.\<close>

record Subscription =
  sub_id :: string
  stripeSubscriptionId :: string
  sub_status :: SubscriptionStatus
  priceId :: string
  quantity :: int
  currentPeriodStart :: date
  currentPeriodEnd :: date
  cancelAtPeriodEnd :: bool
  canceledAt :: "date option"
  trialStart :: "date option"
  trialEnd :: "date option"
  sub_userId :: string
  sub_companyId :: "string option"
  sub_planId :: string

text \<open>Payment and UserActivity rows, without the columns filled by database defaults
  (\<open>id\<close>, \<open>createdAt\<close>, \<open>updatedAt\<close>), which none of the modelled code reads.\<close>

record Payment =
  stripePaymentId :: string
  amount :: int
  currency :: string
  pay_status :: PaymentStatus
  pay_description :: "string option"
  receiptUrl :: "string option"
  pay_userId :: string
  pay_subscriptionId :: "string option"

datatype json = JNull | JString string | JInt int | JBool bool

text \<open>A template literal of the source.  The interpolations that need floating-point
  division and number formatting (\<open>amount / 100\<close>) or Unicode case mapping
  (\<open>toUpperCase\<close>) are kept symbolic, with the interpolated value as argument.\<close>

datatype piece = Lit string | Div100 int | UpperCase string

record UserActivity =
  act_userId :: string
  action :: string
  act_description :: "piece list"
  metadata :: "(string \<times> json) list"

record database =
  users :: "User list"
  plans :: "Plan list"
  subscriptions :: "Subscription list"
  payments :: "Payment list"
  userActivities :: "UserActivity list"

subsection \<open>Stripe objects\<close>

text \<open>The fields of \<open>Stripe.Subscription\<close> that the code reads; times are in seconds.
  \<open>client_secret\<close> stands for \<open>latest_invoice?.payment_intent?.client_secret\<close>.
  \<open>status\<close> is a string; the processor spells its statuses in lower case
  (\<open>Stripe_Subscription_Status\<close> below).\<close>

record StripeSubscription =
  ss_id :: string
  ss_status :: string
  current_period_start :: int
  current_period_end :: int
  cancel_at_period_end :: bool
  canceled_at :: "int option"
  trial_start :: "int option"
  trial_end :: "int option"
  client_secret :: "string option"

text \<open>The values of the union type \<open>Stripe.Subscription.Status\<close>, the type of
  \<open>subscription.status\<close> in the handlers' argument.\<close>

definition Stripe_Subscription_Status :: "string list" where
  "Stripe_Subscription_Status =
     [''active'', ''canceled'', ''incomplete'', ''incomplete_expired'', ''past_due'',
      ''paused'', ''trialing'', ''unpaid'']"

text \<open>\<open>invoice.payment_intent\<close> is \<open>string | Stripe.PaymentIntent | null\<close>.\<close>

datatype payment_intent = PI_null | PI_id string | PI_object string

record Invoice =
  inv_subscription :: "string option"
  inv_payment_intent :: payment_intent
  amount_paid :: int
  amount_due :: int
  inv_currency :: string
  inv_description :: "string option"
  hosted_invoice_url :: "string option"

record Customer =
  cus_id :: string
  metadata_userId :: "string option"

text \<open>\<open>Stripe.Event\<close>, a union discriminated by \<open>event.type\<close>.\<close>

datatype StripeEvent =
  customer_subscription_created StripeSubscription
| customer_subscription_updated StripeSubscription
| customer_subscription_deleted StripeSubscription
| invoice_payment_succeeded Invoice
| invoice_payment_failed Invoice
| customer_created Customer
| other_event string

text \<open>What the payment processor answers to each outbound call of this request;
  \<open>None\<close> and \<open>False\<close> are a rejected promise.\<close>

record stripe_api =
  stripe_customers_create :: "string \<Rightarrow> string \<Rightarrow> string \<Rightarrow> string option"
  stripe_paymentMethods_attach :: "string \<Rightarrow> string \<Rightarrow> bool"
  stripe_customers_update :: "string \<Rightarrow> string \<Rightarrow> bool"
  stripe_subscriptions_create :: "string \<Rightarrow> string \<Rightarrow> StripeSubscription option"
  stripe_subscriptions_update :: "string \<Rightarrow> bool \<Rightarrow> bool"
  stripe_subscriptions_cancel :: "string \<Rightarrow> bool"

subsection \<open>Computations: state, exceptions, logging\<close>

datatype exn =
  PrismaUniqueConstraint
| PrismaRecordNotFound
| PrismaValidation
| PrismaValueOutOfRange
| PrismaConnection
| StripeError

datatype level = Info | Warn | Error

text \<open>The persisted tables, and the environment of a request: which of the coming
  database calls fail for reasons outside the program (\<open>faults\<close>, one flag per call, none
  when the list is used up), the processor, the clock (\<open>Date.now()\<close>), the identifiers
  that \<open>cuid()\<close> will hand out, and the log written so far.\<close>

record world =
  db :: database
  faults :: "bool list"
  stripe :: stripe_api
  clock :: nat
  cuids :: "string list"
  logs :: "(level \<times> string) list"

type_synonym 'a io = "world \<Rightarrow> (exn + 'a) \<times> world"

definition return :: "'a \<Rightarrow> 'a io" where
  "return a w = (Inr a, w)"

definition bind :: "'a io \<Rightarrow> ('a \<Rightarrow> 'b io) \<Rightarrow> 'b io" where
  "bind m f w = (case m w of (Inl e, w') \<Rightarrow> (Inl e, w') | (Inr a, w') \<Rightarrow> f a w')"

definition try_catch :: "'a io \<Rightarrow> (exn \<Rightarrow> 'a io) \<Rightarrow> 'a io" where
  "try_catch m h w = (case m w of (Inl e, w') \<Rightarrow> h e w' | (Inr a, w') \<Rightarrow> (Inr a, w'))"

definition logger :: "level \<Rightarrow> string \<Rightarrow> unit io" where
  "logger l msg w = (Inr (), w\<lparr>logs := logs w @ [(l, msg)]\<rparr>)"

definition next_fault :: "bool list \<Rightarrow> bool" where
  "next_fault fs = (case fs of [] \<Rightarrow> False | b # _ \<Rightarrow> b)"

text \<open>One call of the Prisma client: it fails without effect when the environment says
  so, and otherwise runs the query, which may itself be refused by the database.\<close>

definition prisma :: "(database \<Rightarrow> exn + 'a \<times> database) \<Rightarrow> 'a io" where
  "prisma query w =
     (if next_fault (faults w) then (Inl PrismaConnection, w\<lparr>faults := tl (faults w)\<rparr>)
      else (case query (db w) of
              Inl e \<Rightarrow> (Inl e, w\<lparr>faults := tl (faults w)\<rparr>)
            | Inr (a, d) \<Rightarrow> (Inr a, w\<lparr>db := d, faults := tl (faults w)\<rparr>)))"

definition stripe_call :: "(stripe_api \<Rightarrow> 'a option) \<Rightarrow> 'a io" where
  "stripe_call request w =
     (case request (stripe w) of None \<Rightarrow> (Inl StripeError, w) | Some a \<Rightarrow> (Inr a, w))"

definition accepted :: "bool \<Rightarrow> unit option" where
  "accepted b = (if b then Some () else None)"

definition Date_now :: "nat io" where
  "Date_now w = (Inr (clock w), w)"

subsection \<open>Queries\<close>

text \<open>The queries enforce what the schema declares and the modelled code can violate:
  the unique columns (\<open>@id\<close>, \<open>@unique\<close>), the required fields and the enum of
  statuses.  Foreign keys are not checked: every foreign key that the modelled code writes
  (\<open>userId\<close>, \<open>subscriptionId\<close>, \<open>planId\<close>, \<open>companyId\<close>) is read from a row that the
  same request has just loaded.\<close>

text \<open>An \<open>Int\<close> column is a 32-bit signed integer of the database: a value outside
  its range is refused.\<close>

definition int32 :: "int \<Rightarrow> bool" where
  "int32 n \<longleftrightarrow> - 2147483648 \<le> n \<and> n \<le> 2147483647"

text \<open>A \<open>DateTime\<close> argument travels as \<open>toISOString()\<close> and is read back as an
  RFC 3339 time, whose year has four digits: a \<open>Date\<close> before year 0000 or after year
  9999, and all the more an invalid \<open>Date\<close> (beyond 8.64e15 ms), is refused.\<close>

definition valid_Date :: "date \<Rightarrow> bool" where
  "valid_Date t \<longleftrightarrow> - 62167219200000 \<le> t \<and> t \<le> 253402300799999"

definition valid_optional_Date :: "date option \<Rightarrow> bool" where
  "valid_optional_Date v = (case v of None \<Rightarrow> True | Some t \<Rightarrow> valid_Date t)"

definition require ::
  "bool \<Rightarrow> (database \<Rightarrow> exn + 'b \<times> database) \<Rightarrow> database \<Rightarrow> exn + 'b \<times> database" where
  "require ok query d = (if ok then query d else Inl PrismaValidation)"

fun update_first :: "('a \<Rightarrow> bool) \<Rightarrow> ('a \<Rightarrow> 'a) \<Rightarrow> 'a list \<Rightarrow> 'a list" where
  "update_first P f [] = []"
| "update_first P f (x # xs) = (if P x then f x # xs else x # update_first P f xs)"

text \<open>\<open>prisma.subscription.findUnique({ where: { stripeSubscriptionId } })\<close>\<close>

definition subscription_findUnique :: "string \<Rightarrow> database \<Rightarrow> exn + Subscription option \<times> database" where
  "subscription_findUnique ref d =
     Inr (find (\<lambda>s. stripeSubscriptionId s = ref) (subscriptions d), d)"

text \<open>\<open>prisma.subscription.findFirst({ where: { id, userId } })\<close>\<close>

definition subscription_findFirst :: "string \<Rightarrow> string \<Rightarrow> database \<Rightarrow> exn + Subscription option \<times> database" where
  "subscription_findFirst i u d =
     Inr (find (\<lambda>s. sub_id s = i \<and> sub_userId s = u) (subscriptions d), d)"

text \<open>\<open>prisma.subscription.update\<close> by a unique key: a missing record is an error.\<close>

definition subscription_update ::
  "(Subscription \<Rightarrow> bool) \<Rightarrow> (Subscription \<Rightarrow> Subscription) \<Rightarrow> database \<Rightarrow> exn + Subscription \<times> database" where
  "subscription_update key f d =
     (case find key (subscriptions d) of
        None \<Rightarrow> Inl PrismaRecordNotFound
      | Some s \<Rightarrow> Inr (f s, d\<lparr>subscriptions := update_first key f (subscriptions d)\<rparr>))"

text \<open>\<open>prisma.subscription.create\<close>: \<open>id\<close> and \<open>stripeSubscriptionId\<close> are unique.\<close>

definition subscription_create :: "Subscription \<Rightarrow> database \<Rightarrow> exn + Subscription \<times> database" where
  "subscription_create s d =
     (if \<exists>t \<in> set (subscriptions d).
           sub_id t = sub_id s \<or> stripeSubscriptionId t = stripeSubscriptionId s
      then Inl PrismaUniqueConstraint
      else Inr (s, d\<lparr>subscriptions := subscriptions d @ [s]\<rparr>))"

text \<open>\<open>prisma.payment.create\<close>: \<open>stripePaymentId\<close> is a required string
  (\<open>String @unique\<close>), so anything else is refused by the client's validation;
  \<open>amount\<close> is an \<open>Int\<close> column.\<close>

definition payment_create :: "payment_intent \<Rightarrow> (string \<Rightarrow> Payment) \<Rightarrow> database \<Rightarrow> exn + unit \<times> database" where
  "payment_create pid row d =
     (case pid of
        PI_id r \<Rightarrow>
          (if \<not> int32 (amount (row r)) then Inl PrismaValueOutOfRange
           else if \<exists>p \<in> set (payments d). stripePaymentId p = r then Inl PrismaUniqueConstraint
           else Inr ((), d\<lparr>payments := payments d @ [row r]\<rparr>))
      | _ \<Rightarrow> Inl PrismaValidation)"

definition userActivity_create :: "UserActivity \<Rightarrow> database \<Rightarrow> exn + unit \<times> database" where
  "userActivity_create a d = Inr ((), d\<lparr>userActivities := userActivities d @ [a]\<rparr>)"

text \<open>\<open>prisma.user.update({ where: { id }, data: { stripeCustomerId } })\<close>;
  \<open>stripeCustomerId\<close> is unique.\<close>

definition user_update_stripeCustomerId :: "string \<Rightarrow> string \<Rightarrow> database \<Rightarrow> exn + unit \<times> database" where
  "user_update_stripeCustomerId i c d =
     (case find (\<lambda>u. user_id u = i) (users d) of
        None \<Rightarrow> Inl PrismaRecordNotFound
      | Some _ \<Rightarrow>
          (if \<exists>u \<in> set (users d). user_id u \<noteq> i \<and> stripeCustomerId u = Some c
           then Inl PrismaUniqueConstraint
           else Inr ((), d\<lparr>users := update_first (\<lambda>u. user_id u = i)
                                       (\<lambda>u. u\<lparr>stripeCustomerId := Some c\<rparr>) (users d)\<rparr>)))"

definition plan_findUnique :: "string \<Rightarrow> database \<Rightarrow> exn + Plan option \<times> database" where
  "plan_findUnique i d = Inr (find (\<lambda>p. plan_id p = i) (plans d), d)"

text \<open>The client validates an enum argument before it reaches the database: the value
  must be one of the names of the schema's SubscriptionStatus.\<close>

definition parse_status :: "string \<Rightarrow> SubscriptionStatus option" where
  "parse_status v =
     (if v = ''ACTIVE'' then Some ACTIVE
      else if v = ''CANCELED'' then Some CANCELED
      else if v = ''INCOMPLETE'' then Some INCOMPLETE
      else if v = ''INCOMPLETE_EXPIRED'' then Some INCOMPLETE_EXPIRED
      else if v = ''PAST_DUE'' then Some PAST_DUE
      else if v = ''TRIALING'' then Some TRIALING
      else if v = ''UNPAID'' then Some UNPAID
      else None)"

definition validated ::
  "'a option \<Rightarrow> ('a \<Rightarrow> database \<Rightarrow> exn + 'b \<times> database) \<Rightarrow> database \<Rightarrow> exn + 'b \<times> database" where
  "validated v query d = (case v of None \<Rightarrow> Inl PrismaValidation | Some a \<Rightarrow> query a d)"

subsection \<open>JavaScript helpers\<close>

text \<open>Truthiness of a \<open>string | null\<close>: \<open>null\<close> and the empty string are falsy.\<close>

definition truthy :: "string option \<Rightarrow> string option" where
  "truthy v = (case v of None \<Rightarrow> None | Some s \<Rightarrow> if s = [] then None else Some s)"

text \<open>\<open>t ? new Date(t * 1000) : null\<close>: \<open>null\<close> and \<open>0\<close> are falsy.\<close>

definition optional_Date :: "int option \<Rightarrow> date option" where
  "optional_Date t = (case t of None \<Rightarrow> None | Some n \<Rightarrow> if n = 0 then None else Some (n * 1000))"

fun decimal :: "nat \<Rightarrow> string" where
  "decimal n =
     (if n < 10 then [char_of (48 + n)] else decimal (n div 10) @ [char_of (48 + n mod 10)])"

declare decimal.simps [simp del]

text \<open>\<open>typeof invoice.payment_intent === 'string' ? invoice.payment_intent
  : invoice.payment_intent?.id || null\<close>\<close>

definition paymentId :: "payment_intent \<Rightarrow> json" where
  "paymentId p =
     (case p of
        PI_id r \<Rightarrow> JString r
      | PI_object i \<Rightarrow> (if i = [] then JNull else JString i)
      | PI_null \<Rightarrow> JNull)"

subsection \<open>The webhook handlers\<close>

definition handleSubscriptionUpdate :: "StripeSubscription \<Rightarrow> unit io" where
  "handleSubscriptionUpdate subscription =
     try_catch
       (bind (prisma (subscription_findUnique (ss_id subscription))) (\<lambda>existingSubscription.
          case existingSubscription of
            None \<Rightarrow> return ()
          | Some _ \<Rightarrow>
              bind (prisma (validated (parse_status (ss_status subscription)) (\<lambda>st.
                      require
                        (valid_Date (current_period_start subscription * 1000) \<and>
                         valid_Date (current_period_end subscription * 1000) \<and>
                         valid_optional_Date (optional_Date (canceled_at subscription)) \<and>
                         valid_optional_Date (optional_Date (trial_start subscription)) \<and>
                         valid_optional_Date (optional_Date (trial_end subscription)))
                      (subscription_update (\<lambda>s. stripeSubscriptionId s = ss_id subscription)
                        (\<lambda>s. s\<lparr>sub_status := st,
                                currentPeriodStart := current_period_start subscription * 1000,
                                currentPeriodEnd := current_period_end subscription * 1000,
                                cancelAtPeriodEnd := cancel_at_period_end subscription,
                                canceledAt := optional_Date (canceled_at subscription),
                                trialStart := optional_Date (trial_start subscription),
                                trialEnd := optional_Date (trial_end subscription)\<rparr>))))) (\<lambda>_.
              logger Info ''Subscription updated'')))
       (\<lambda>error. logger Error ''Error updating subscription'')"

definition handleSubscriptionDeleted :: "StripeSubscription \<Rightarrow> unit io" where
  "handleSubscriptionDeleted subscription =
     try_catch
       (bind Date_now (\<lambda>now.
        bind (prisma (require (valid_Date (int now))
                (subscription_update (\<lambda>s. stripeSubscriptionId s = ss_id subscription)
                  (\<lambda>s. s\<lparr>sub_status := CANCELED, canceledAt := Some (int now)\<rparr>)))) (\<lambda>_.
        logger Info ''Subscription deleted'')))
       (\<lambda>error. logger Error ''Error deleting subscription'')"

definition handlePaymentSucceeded :: "Invoice \<Rightarrow> unit io" where
  "handlePaymentSucceeded invoice =
     try_catch
       (case truthy (inv_subscription invoice) of
          None \<Rightarrow> return ()
        | Some ref \<Rightarrow>
            bind (prisma (subscription_findUnique ref)) (\<lambda>found.
              case found of
                None \<Rightarrow> return ()
              | Some subscription \<Rightarrow>
                  bind (prisma (payment_create (inv_payment_intent invoice) (\<lambda>r.
                          \<lparr>stripePaymentId = r,
                           amount = amount_paid invoice,
                           currency = inv_currency invoice,
                           pay_status = SUCCEEDED,
                           pay_description =
                             Some (case truthy (inv_description invoice) of
                                     None \<Rightarrow> ''Subscription payment'' | Some t \<Rightarrow> t),
                           receiptUrl = hosted_invoice_url invoice,
                           pay_userId = sub_userId subscription,
                           pay_subscriptionId = Some (sub_id subscription)\<rparr>))) (\<lambda>_.
                  bind (prisma (userActivity_create
                          \<lparr>act_userId = sub_userId subscription,
                           action = ''PAYMENT_SUCCEEDED'',
                           act_description =
                             [Lit ''Payment succeeded for amount: '', Div100 (amount_paid invoice),
                              Lit '' '', UpperCase (inv_currency invoice)],
                           metadata =
                             [(''paymentId'', paymentId (inv_payment_intent invoice)),
                              (''amount'', JInt (amount_paid invoice)),
                              (''currency'', JString (inv_currency invoice))]\<rparr>)) (\<lambda>_.
                  logger Info ''Payment succeeded''))))
       (\<lambda>error. logger Error ''Error handling payment succeeded'')"

text \<open>\<open>invoice.payment_intent as string || `failed_${Date.now()}`\<close>\<close>

definition failed_payment_id :: "payment_intent \<Rightarrow> nat \<Rightarrow> payment_intent" where
  "failed_payment_id p now =
     (case p of
        PI_null \<Rightarrow> PI_id (''failed_'' @ decimal now)
      | PI_id r \<Rightarrow> (if r = [] then PI_id (''failed_'' @ decimal now) else PI_id r)
      | PI_object i \<Rightarrow> PI_object i)"

definition handlePaymentFailed :: "Invoice \<Rightarrow> unit io" where
  "handlePaymentFailed invoice =
     try_catch
       (case truthy (inv_subscription invoice) of
          None \<Rightarrow> return ()
        | Some ref \<Rightarrow>
            bind (prisma (subscription_findUnique ref)) (\<lambda>found.
              case found of
                None \<Rightarrow> return ()
              | Some subscription \<Rightarrow>
                  bind Date_now (\<lambda>now.
                  bind (prisma (payment_create (failed_payment_id (inv_payment_intent invoice) now) (\<lambda>r.
                          \<lparr>stripePaymentId = r,
                           amount = amount_due invoice,
                           currency = inv_currency invoice,
                           pay_status = FAILED,
                           pay_description =
                             Some (case truthy (inv_description invoice) of
                                     None \<Rightarrow> ''Subscription payment failed'' | Some t \<Rightarrow> t),
                           receiptUrl = None,
                           pay_userId = sub_userId subscription,
                           pay_subscriptionId = Some (sub_id subscription)\<rparr>))) (\<lambda>_.
                  bind (prisma (userActivity_create
                          \<lparr>act_userId = sub_userId subscription,
                           action = ''PAYMENT_FAILED'',
                           act_description =
                             [Lit ''Payment failed for amount: '', Div100 (amount_due invoice),
                              Lit '' '', UpperCase (inv_currency invoice)],
                           metadata =
                             [(''paymentId'', paymentId (inv_payment_intent invoice)),
                              (''amount'', JInt (amount_due invoice)),
                              (''currency'', JString (inv_currency invoice))]\<rparr>)) (\<lambda>_.
                  logger Warn ''Payment failed'')))))
       (\<lambda>error. logger Error ''Error handling payment failed'')"

definition handleCustomerCreated :: "Customer \<Rightarrow> unit io" where
  "handleCustomerCreated customer =
     try_catch
       (case truthy (metadata_userId customer) of
          None \<Rightarrow> return ()
        | Some userId \<Rightarrow>
            bind (prisma (user_update_stripeCustomerId userId (cus_id customer))) (\<lambda>_.
            logger Info ''Customer created and linked''))
       (\<lambda>error. logger Error ''Error handling customer created'')"

subsection \<open>POST /api/webhooks/stripe\<close>

datatype body =
  Send string
| JsonError string
| JsonReceived
| JsonSubscription Subscription "Plan option"
| JsonCreated Subscription "Plan option" "string option"

datatype response = Response (status_code: nat) (response_body: body)

text \<open>The argument is what \<open>stripe.webhooks.constructEvent\<close> makes of the raw body, the
  signature header and the endpoint secret: the verified event, or the message of the
  error it throws.\<close>

definition stripe_webhook :: "string + StripeEvent \<Rightarrow> response io" where
  "stripe_webhook constructEvent =
     (case constructEvent of
        Inl message \<Rightarrow>
          bind (logger Error ''Webhook signature verification failed'') (\<lambda>_.
          return (Response 400 (Send (''Webhook Error: '' @ message))))
      | Inr event \<Rightarrow>
          try_catch
            (bind (case event of
                     customer_subscription_created object \<Rightarrow> handleSubscriptionUpdate object
                   | customer_subscription_updated object \<Rightarrow> handleSubscriptionUpdate object
                   | customer_subscription_deleted object \<Rightarrow> handleSubscriptionDeleted object
                   | invoice_payment_succeeded object \<Rightarrow> handlePaymentSucceeded object
                   | invoice_payment_failed object \<Rightarrow> handlePaymentFailed object
                   | customer_created object \<Rightarrow> handleCustomerCreated object
                   | other_event type \<Rightarrow> logger Info (''Unhandled event type: '' @ type)) (\<lambda>_.
             return (Response 200 JsonReceived)))
            (\<lambda>error.
               bind (logger Error ''Webhook processing error'') (\<lambda>_.
               return (Response 500 (JsonError ''Webhook processing failed'')))))"

subsection \<open>The subscription routes\<close>

text \<open>The identifier that the column default \<open>cuid()\<close> gives a new row.\<close>

definition cuid :: "string io" where
  "cuid w = (Inr (case cuids w of [] \<Rightarrow> [] | c # _ \<Rightarrow> c), w\<lparr>cuids := tl (cuids w)\<rparr>)"

text \<open>\<open>include: { plan: true }\<close>, the plan joined to the row a query returns.\<close>

definition include_plan :: "Subscription \<Rightarrow> (Subscription \<times> Plan option) io" where
  "include_plan s w = (Inr (s, find (\<lambda>p. plan_id p = sub_planId s) (plans (db w))), w)"

text \<open>POST /api/subscriptions/create, for the user that the \<open>auth\<close> middleware loaded
  and the body's \<open>planId\<close> and \<open>paymentMethodId\<close>.\<close>

definition create :: "User \<Rightarrow> string \<Rightarrow> string \<Rightarrow> response io" where
  "create user planId paymentMethodId =
     try_catch
       (bind (prisma (plan_findUnique planId)) (\<lambda>found.
          case found of
            None \<Rightarrow> return (Response 404 (JsonError ''Plan not found''))
          | Some plan \<Rightarrow>
              bind (case truthy (stripeCustomerId user) of
                      Some known \<Rightarrow> return known
                    | None \<Rightarrow>
                        bind (stripe_call (\<lambda>api. stripe_customers_create api (email user)
                                (firstName user @ '' '' @ lastName user) (user_id user))) (\<lambda>customer.
                        bind (prisma (user_update_stripeCustomerId (user_id user) customer)) (\<lambda>_.
                        return customer))) (\<lambda>customerId.
              bind (stripe_call (\<lambda>api.
                      accepted (stripe_paymentMethods_attach api paymentMethodId customerId))) (\<lambda>_.
              bind (stripe_call (\<lambda>api.
                      accepted (stripe_customers_update api customerId paymentMethodId))) (\<lambda>_.
              bind (stripe_call (\<lambda>api.
                      stripe_subscriptions_create api customerId (stripePriceId plan))) (\<lambda>stripeSubscription.
              bind cuid (\<lambda>new_id.
              bind (prisma (validated (parse_status (ss_status stripeSubscription)) (\<lambda>st.
                      require
                        (valid_Date (current_period_start stripeSubscription * 1000) \<and>
                         valid_Date (current_period_end stripeSubscription * 1000))
                      (subscription_create
                        \<lparr>sub_id = new_id,
                         stripeSubscriptionId = ss_id stripeSubscription,
                         sub_status = st,
                         priceId = stripePriceId plan,
                         quantity = 1,
                         currentPeriodStart = current_period_start stripeSubscription * 1000,
                         currentPeriodEnd = current_period_end stripeSubscription * 1000,
                         cancelAtPeriodEnd = False,
                         canceledAt = None,
                         trialStart = None,
                         trialEnd = None,
                         sub_userId = user_id user,
                         sub_companyId = companyId user,
                         sub_planId = plan_id plan\<rparr>)))) (\<lambda>created.
              bind (include_plan created) (\<lambda>(subscription, joined).
              bind (prisma (userActivity_create
                      \<lparr>act_userId = user_id user,
                       action = ''SUBSCRIPTION_CREATED'',
                       act_description = [Lit ''Created subscription for plan: '', Lit (plan_name plan)],
                       metadata =
                         [(''subscriptionId'', JString (sub_id subscription)),
                          (''planId'', JString (plan_id plan))]\<rparr>)) (\<lambda>_.
              bind (logger Info ''Subscription created'') (\<lambda>_.
              return (Response 200
                (JsonCreated subscription joined (client_secret stripeSubscription))))))))))))))
       (\<lambda>error.
          bind (logger Error ''Create subscription error'') (\<lambda>_.
          return (Response 500 (JsonError ''Server error''))))"

text \<open>POST /api/subscriptions/:id/cancel; \<open>flag\<close> is the body's \<open>cancelAtPeriodEnd\<close>,
  which the destructuring defaults to \<open>true\<close> when it is missing.\<close>

definition cancel :: "User \<Rightarrow> string \<Rightarrow> bool option \<Rightarrow> response io" where
  "cancel user id' flag =
     try_catch
       (bind (return (case flag of None \<Rightarrow> True | Some b \<Rightarrow> b)) (\<lambda>cancelAtPeriodEnd'.
        bind (prisma (subscription_findFirst id' (user_id user))) (\<lambda>found.
          case found of
            None \<Rightarrow> return (Response 404 (JsonError ''Subscription not found''))
          | Some subscription \<Rightarrow>
              bind (if cancelAtPeriodEnd'
                    then stripe_call (\<lambda>api. accepted
                           (stripe_subscriptions_update api (stripeSubscriptionId subscription) True))
                    else stripe_call (\<lambda>api. accepted
                           (stripe_subscriptions_cancel api (stripeSubscriptionId subscription)))) (\<lambda>_.
              bind Date_now (\<lambda>now.
              bind (prisma (require (cancelAtPeriodEnd' \<or> valid_Date (int now))
                      (subscription_update (\<lambda>s. sub_id s = id')
                        (\<lambda>s. s\<lparr>cancelAtPeriodEnd := cancelAtPeriodEnd',
                                canceledAt := (if cancelAtPeriodEnd' then canceledAt s else Some (int now)),
                                sub_status := (if cancelAtPeriodEnd' then sub_status subscription
                                               else CANCELED)\<rparr>)))) (\<lambda>updated.
              bind (include_plan updated) (\<lambda>(updatedSubscription, joined).
              bind (prisma (userActivity_create
                      \<lparr>act_userId = user_id user,
                       action = ''SUBSCRIPTION_CANCELED'',
                       act_description = [Lit ''Canceled subscription: '', Lit (sub_id subscription)],
                       metadata =
                         [(''subscriptionId'', JString (sub_id subscription)),
                          (''cancelAtPeriodEnd'', JBool cancelAtPeriodEnd')]\<rparr>)) (\<lambda>_.
              bind (logger Info ''Subscription canceled'') (\<lambda>_.
              return (Response 200 (JsonSubscription updatedSubscription joined)))))))))))
       (\<lambda>error.
          bind (logger Error ''Cancel subscription error'') (\<lambda>_.
          return (Response 500 (JsonError ''Server error''))))"

text \<open>POST /api/subscriptions/:id/reactivate\<close>

definition reactivate :: "User \<Rightarrow> string \<Rightarrow> response io" where
  "reactivate user id' =
     try_catch
       (bind (prisma (subscription_findFirst id' (user_id user))) (\<lambda>found.
          case found of
            None \<Rightarrow> return (Response 404 (JsonError ''Subscription not found''))
          | Some subscription \<Rightarrow>
              bind (stripe_call (\<lambda>api. accepted
                      (stripe_subscriptions_update api (stripeSubscriptionId subscription) False))) (\<lambda>_.
              bind (prisma (subscription_update (\<lambda>s. sub_id s = id')
                      (\<lambda>s. s\<lparr>cancelAtPeriodEnd := False, canceledAt := None\<rparr>))) (\<lambda>updated.
              bind (include_plan updated) (\<lambda>(updatedSubscription, joined).
              bind (prisma (userActivity_create
                      \<lparr>act_userId = user_id user,
                       action = ''SUBSCRIPTION_REACTIVATED'',
                       act_description = [Lit ''Reactivated subscription: '', Lit (sub_id subscription)],
                       metadata = [(''subscriptionId'', JString (sub_id subscription))]\<rparr>)) (\<lambda>_.
              bind (logger Info ''Subscription reactivated'') (\<lambda>_.
              return (Response 200 (JsonSubscription updatedSubscription joined)))))))))
       (\<lambda>error.
          bind (logger Error ''Reactivate subscription error'') (\<lambda>_.
          return (Response 500 (JsonError ''Server error''))))"

subsection \<open>Scenarios\<close>

text \<open>The scenario of the specification: subscription \<open>sub_1\<close> of user \<open>u1\<close>, and a
  payment of 2999 \<open>usd\<close> with payment reference \<open>pi_1\<close>.\<close>

definition user_u1 :: User where
  "user_u1 = \<lparr>user_id = ''u1'', email = ''u1@example.com'', firstName = ''Ada'',
     lastName = ''Byron'', stripeCustomerId = None, companyId = None\<rparr>"

definition user_u2 :: User where
  "user_u2 = \<lparr>user_id = ''u2'', email = ''u2@example.com'', firstName = ''Bob'',
     lastName = ''Stone'', stripeCustomerId = Some ''cus_2'', companyId = None\<rparr>"

definition plan_basic :: Plan where
  "plan_basic = \<lparr>plan_id = ''plan_basic'', plan_name = ''Basic'', stripePriceId = ''price_basic''\<rparr>"

definition sub_1 :: Subscription where
  "sub_1 = \<lparr>sub_id = ''s1'', stripeSubscriptionId = ''sub_1'', sub_status = ACTIVE,
     priceId = ''price_basic'', quantity = 1, currentPeriodStart = 1700000000000,
     currentPeriodEnd = 1702592000000, cancelAtPeriodEnd = False, canceledAt = None,
     trialStart = None, trialEnd = None, sub_userId = ''u1'', sub_companyId = None,
     sub_planId = ''plan_basic''\<rparr>"

definition stripe_sub_9 :: StripeSubscription where
  "stripe_sub_9 =
     \<lparr>ss_id = ''sub_9'', ss_status = ''incomplete'', current_period_start = 1700000000,
      current_period_end = 1702592000, cancel_at_period_end = False, canceled_at = None,
      trial_start = None, trial_end = None, client_secret = Some ''secret''\<rparr>"

definition stripe_accepts :: stripe_api where
  "stripe_accepts =
     \<lparr>stripe_customers_create = (\<lambda>_ _ _. Some ''cus_1''),
      stripe_paymentMethods_attach = (\<lambda>_ _. True),
      stripe_customers_update = (\<lambda>_ _. True),
      stripe_subscriptions_create = (\<lambda>_ _. Some stripe_sub_9),
      stripe_subscriptions_update = (\<lambda>_ _. True),
      stripe_subscriptions_cancel = (\<lambda>_. True)\<rparr>"

definition database_1 :: database where
  "database_1 = \<lparr>users = [user_u1, user_u2], plans = [plan_basic], subscriptions = [sub_1],
     payments = [], userActivities = []\<rparr>"

definition world_1 :: world where
  "world_1 = \<lparr>db = database_1, faults = [], stripe = stripe_accepts, clock = 1700000000000,
     cuids = [''c1''], logs = []\<rparr>"

definition invoice_pi_1 :: Invoice where
  "invoice_pi_1 = \<lparr>inv_subscription = Some ''sub_1'', inv_payment_intent = PI_id ''pi_1'',
     amount_paid = 2999, amount_due = 2999, inv_currency = ''usd'', inv_description = None,
     hosted_invoice_url = None\<rparr>"

text \<open>Two snapshots of \<open>sub_1\<close>, and a subscription of another user.\<close>

definition snapshot_past_due :: StripeSubscription where
  "snapshot_past_due = \<lparr>ss_id = ''sub_1'', ss_status = ''past_due'',
     current_period_start = 1702592000, current_period_end = 1705270400,
     cancel_at_period_end = True, canceled_at = None, trial_start = Some 1700000000,
     trial_end = Some 1700600000, client_secret = None\<rparr>"

definition snapshot_canceled :: StripeSubscription where
  "snapshot_canceled = \<lparr>ss_id = ''sub_1'', ss_status = ''canceled'',
     current_period_start = 1702592000, current_period_end = 1705270400,
     cancel_at_period_end = False, canceled_at = Some 1703000000, trial_start = None,
     trial_end = None, client_secret = None\<rparr>"

definition sub_2 :: Subscription where
  "sub_2 = \<lparr>sub_id = ''s2'', stripeSubscriptionId = ''sub_2'', sub_status = TRIALING,
     priceId = ''price_basic'', quantity = 1, currentPeriodStart = 1700000000000,
     currentPeriodEnd = 1702592000000, cancelAtPeriodEnd = False, canceledAt = None,
     trialStart = None, trialEnd = None, sub_userId = ''u2'', sub_companyId = None,
     sub_planId = ''plan_basic''\<rparr>"

definition world_2 :: world where
  "world_2 = world_1\<lparr>db := database_1\<lparr>subscriptions := [sub_2, sub_1]\<rparr>\<rparr>"

text \<open>\<open>sub_1\<close> after its period has ended: canceled, with the cancel flag set.\<close>

definition sub_canceled :: Subscription where
  "sub_canceled = sub_1\<lparr>sub_status := CANCELED, cancelAtPeriodEnd := True,
     canceledAt := Some 1702592000000\<rparr>"

definition world_canceled :: world where
  "world_canceled = world_1\<lparr>db := database_1\<lparr>subscriptions := [sub_canceled]\<rparr>\<rparr>"

text \<open>A processor that refuses to create subscriptions, and one that refuses updates.\<close>

definition world_refused :: world where
  "world_refused = world_1\<lparr>stripe := stripe_accepts\<lparr>stripe_subscriptions_create := (\<lambda>_ _. None)\<rparr>\<rparr>"

definition world_canceled_refused :: world where
  "world_canceled_refused =
     world_canceled\<lparr>stripe := stripe_accepts\<lparr>stripe_subscriptions_update := (\<lambda>_ _. False)\<rparr>\<rparr>"

lemmas scenario_defs = snapshot_past_due_def snapshot_canceled_def sub_2_def world_2_def
  sub_canceled_def world_canceled_def world_refused_def world_canceled_refused_def
  stripe_sub_9_def user_u1_def user_u2_def plan_basic_def sub_1_def stripe_accepts_def
  database_1_def world_1_def invoice_pi_1_def

section \<open>Properties\<close>

lemmas io_defs = return_def bind_def try_catch_def logger_def prisma_def
  stripe_call_def Date_now_def require_def

lemma next_fault_Nil [simp]: "next_fault [] = False"
  by (simp add: next_fault_def)

lemma truthy_Some: "r \<noteq> [] \<Longrightarrow> truthy (Some r) = Some r"
  by (simp add: truthy_def)

subsection \<open>Webhook handlers swallow their errors\<close>

lemma handler_returns: "fst (try_catch m (\<lambda>error. logger l msg) w) = Inr ()"
  by (simp add: try_catch_def logger_def split: prod.splits sum.splits)

text \<open>C10: a webhook delivery whose signature verifies is answered with
  \<open>{received: true}\<close> and status 200, whatever the event and whatever the database calls
  of its handler do, since every handler catches its own errors.\<close>

theorem webhook_acknowledges:
  "fst (stripe_webhook (Inr event) w) = Inr (Response 200 JsonReceived)"
proof -
  have ack: "fst (try_catch (bind h (\<lambda>_. return (Response 200 JsonReceived)))
        (\<lambda>error. bind (logger Error ''Webhook processing error'') (\<lambda>_.
               return (Response 500 (JsonError ''Webhook processing failed'')))) w)
      = Inr (Response 200 JsonReceived)" if "fst (h w) = Inr ()" for h :: "unit io"
    using that by (cases "h w") (simp add: io_defs)
  show ?thesis
    unfolding stripe_webhook_def
    by (cases event)
      (simp_all add: ack handler_returns handleSubscriptionUpdate_def
        handleSubscriptionDeleted_def handlePaymentSucceeded_def handlePaymentFailed_def
        handleCustomerCreated_def logger_def)
qed

theorem webhook_acknowledges_witness:
  "fst (stripe_webhook (Inr (invoice_payment_succeeded invoice_pi_1))
         (world_1\<lparr>faults := [False, True]\<rparr>)) = Inr (Response 200 JsonReceived)"
  using webhook_acknowledges [of "invoice_payment_succeeded invoice_pi_1"
      "world_1\<lparr>faults := [False, True]\<rparr>"] by simp

subsection \<open>Events about subscriptions that are not known locally\<close>

text \<open>C7: a payment outcome (succeeded or failed) whose subscription reference matches no
  local Subscription writes nothing, neither Payment nor UserActivity nor Subscription, and
  the handler returns normally.\<close>

theorem unknown_subscription_payment:
  assumes "\<forall>s \<in> set (subscriptions (db w)). Some (stripeSubscriptionId s) \<noteq> inv_subscription invoice"
  shows "fst (handlePaymentSucceeded invoice w) = Inr () \<and>
         db (snd (handlePaymentSucceeded invoice w)) = db w \<and>
         fst (handlePaymentFailed invoice w) = Inr () \<and>
         db (snd (handlePaymentFailed invoice w)) = db w"
proof -
  have nf: "find (\<lambda>s. stripeSubscriptionId s = r) (subscriptions (db w)) = None"
    if "truthy (inv_subscription invoice) = Some r" for r
    using that assms by (auto simp: truthy_def find_None_iff split: option.splits if_splits)
  show ?thesis
    by (cases "truthy (inv_subscription invoice)")
       (simp_all add: handlePaymentSucceeded_def handlePaymentFailed_def io_defs
          subscription_findUnique_def nf)
qed

theorem unknown_subscription_payment_witness:
  "fst (handlePaymentSucceeded (invoice_pi_1\<lparr>inv_subscription := Some ''sub_7''\<rparr>) world_1) = Inr () \<and>
   db (snd (handlePaymentSucceeded (invoice_pi_1\<lparr>inv_subscription := Some ''sub_7''\<rparr>) world_1)) = database_1 \<and>
   fst (handlePaymentFailed (invoice_pi_1\<lparr>inv_subscription := Some ''sub_7''\<rparr>) world_1) = Inr () \<and>
   db (snd (handlePaymentFailed (invoice_pi_1\<lparr>inv_subscription := Some ''sub_7''\<rparr>) world_1)) = database_1"
proof -
  have h: "\<forall>s \<in> set (subscriptions (db world_1)).
      Some (stripeSubscriptionId s) \<noteq> inv_subscription (invoice_pi_1\<lparr>inv_subscription := Some ''sub_7''\<rparr>)"
    by (simp add: scenario_defs)
  have d: "db world_1 = database_1"
    by (simp add: world_1_def)
  show ?thesis
    using unknown_subscription_payment [OF h] by (simp add: d)
qed

text \<open>C8: a subscription snapshot whose reference matches no local Subscription leaves
  every table as it was; no Subscription row is created or modified.\<close>

theorem unknown_subscription_snapshot:
  assumes "\<forall>s \<in> set (subscriptions (db w)). stripeSubscriptionId s \<noteq> ss_id snapshot"
  shows "db (snd (handleSubscriptionUpdate snapshot w)) = db w"
proof -
  have nf: "find (\<lambda>s. stripeSubscriptionId s = ss_id snapshot) (subscriptions (db w)) = None"
    using assms by (simp add: find_None_iff)
  show ?thesis
    by (simp add: handleSubscriptionUpdate_def io_defs subscription_findUnique_def nf)
qed

theorem unknown_subscription_snapshot_witness:
  "db (snd (handleSubscriptionUpdate stripe_sub_9 world_1)) = database_1"
proof -
  have h: "\<forall>s \<in> set (subscriptions (db world_1)).
      stripeSubscriptionId s \<noteq> ss_id stripe_sub_9"
    by (simp add: scenario_defs)
  have d: "db world_1 = database_1"
    by (simp add: world_1_def)
  show ?thesis
    using unknown_subscription_snapshot [OF h] by (simp add: d)
qed


subsection \<open>Filing a payment\<close>

text \<open>A delivery whose payment reference is already filed changes no table, whatever
  the database calls do: \<open>payment.create\<close> is refused by the unique constraint on
  \<open>stripePaymentId\<close>, and the handler's \<open>catch\<close> skips the activity entry.\<close>

lemma payment_already_filed:
  assumes "inv_payment_intent invoice = PI_id r"
    and "\<exists>p \<in> set (payments (db w)). stripePaymentId p = r"
  shows "db (snd (handlePaymentSucceeded invoice w)) = db w"
proof (cases "truthy (inv_subscription invoice)")
  case None
  then show ?thesis by (simp add: handlePaymentSucceeded_def io_defs)
next
  case (Some ref)
  show ?thesis
  proof (cases "find (\<lambda>s. stripeSubscriptionId s = ref) (subscriptions (db w))")
    case None
    with Some show ?thesis
      by (simp add: handlePaymentSucceeded_def io_defs subscription_findUnique_def)
  next
    case (Some sub)
    with \<open>truthy (inv_subscription invoice) = Some ref\<close> assms show ?thesis
      by (simp add: handlePaymentSucceeded_def io_defs subscription_findUnique_def
          payment_create_def)
  qed
qed

lemma payment_first_delivery:
  assumes "faults w = []"
    and "inv_subscription invoice = Some ref" and "ref \<noteq> []"
    and "find (\<lambda>s. stripeSubscriptionId s = ref) (subscriptions (db w)) = Some sub"
    and "inv_payment_intent invoice = PI_id r"
    and "\<forall>p \<in> set (payments (db w)). stripePaymentId p \<noteq> r"
    and "int32 (amount_paid invoice)"
  shows "\<exists>p a. db (snd (handlePaymentSucceeded invoice w)) =
            (db w)\<lparr>payments := payments (db w) @ [p],
                   userActivities := userActivities (db w) @ [a]\<rparr> \<and>
          stripePaymentId p = r \<and> amount p = amount_paid invoice \<and> pay_status p = SUCCEEDED \<and>
          pay_userId p = sub_userId sub \<and> pay_subscriptionId p = Some (sub_id sub) \<and>
          act_userId a = sub_userId sub \<and> action a = ''PAYMENT_SUCCEEDED''"
  using assms
  apply (simp add: handlePaymentSucceeded_def io_defs subscription_findUnique_def
          payment_create_def userActivity_create_def truthy_Some)
  apply (intro exI conjI)
         apply (rule refl)
        apply simp_all
  done

text \<open>C1: two deliveries of the same payment-succeeded event (same payment reference,
  known subscription, reference not filed before, amount within the \<open>Int\<close> column, first
  delivery without database failure) leave exactly one new Payment row and exactly one new
  UserActivity entry: the second delivery, whatever its database calls do, creates no
  further row.\<close>

theorem payment_redelivery:
  assumes "faults w = []"
    and "inv_subscription invoice = Some ref" and "ref \<noteq> []"
    and "find (\<lambda>s. stripeSubscriptionId s = ref) (subscriptions (db w)) = Some sub"
    and "inv_payment_intent invoice = PI_id r"
    and "\<forall>p \<in> set (payments (db w)). stripePaymentId p \<noteq> r"
    and "int32 (amount_paid invoice)"
  shows "\<exists>p a.
          db (snd (handlePaymentSucceeded invoice w)) =
            (db w)\<lparr>payments := payments (db w) @ [p],
                   userActivities := userActivities (db w) @ [a]\<rparr> \<and>
          stripePaymentId p = r \<and> amount p = amount_paid invoice \<and> pay_status p = SUCCEEDED \<and>
          pay_userId p = sub_userId sub \<and> pay_subscriptionId p = Some (sub_id sub) \<and>
          act_userId a = sub_userId sub \<and> action a = ''PAYMENT_SUCCEEDED'' \<and>
          db (snd (handlePaymentSucceeded invoice
                (snd (handlePaymentSucceeded invoice w)\<lparr>faults := fs\<rparr>))) =
            (db w)\<lparr>payments := payments (db w) @ [p],
                   userActivities := userActivities (db w) @ [a]\<rparr>"
proof -
  let ?w1 = "snd (handlePaymentSucceeded invoice w)"
  from payment_first_delivery [OF assms] obtain p a where
    d1: "db ?w1 = (db w)\<lparr>payments := payments (db w) @ [p],
                   userActivities := userActivities (db w) @ [a]\<rparr>"
    and rows: "stripePaymentId p = r" "amount p = amount_paid invoice" "pay_status p = SUCCEEDED"
      "pay_userId p = sub_userId sub" "pay_subscriptionId p = Some (sub_id sub)"
      "act_userId a = sub_userId sub" "action a = ''PAYMENT_SUCCEEDED''"
    by blast
  have "\<exists>q \<in> set (payments (db (?w1\<lparr>faults := fs\<rparr>))). stripePaymentId q = r"
    using d1 rows(1) by simp
  from payment_already_filed [OF assms(5) this]
  have "db (snd (handlePaymentSucceeded invoice (?w1\<lparr>faults := fs\<rparr>))) = db ?w1"
    by simp
  with d1 rows show ?thesis by metis
qed

theorem payment_redelivery_witness:
  "\<exists>p a.
     db (snd (handlePaymentSucceeded invoice_pi_1 world_1)) =
       (db world_1)\<lparr>payments := payments (db world_1) @ [p],
                     userActivities := userActivities (db world_1) @ [a]\<rparr> \<and>
     stripePaymentId p = ''pi_1'' \<and> amount p = amount_paid invoice_pi_1 \<and>
     pay_status p = SUCCEEDED \<and>
     pay_userId p = sub_userId sub_1 \<and> pay_subscriptionId p = Some (sub_id sub_1) \<and>
     act_userId a = sub_userId sub_1 \<and> action a = ''PAYMENT_SUCCEEDED'' \<and>
     db (snd (handlePaymentSucceeded invoice_pi_1
           (snd (handlePaymentSucceeded invoice_pi_1 world_1)\<lparr>faults := []\<rparr>))) =
       (db world_1)\<lparr>payments := payments (db world_1) @ [p],
                     userActivities := userActivities (db world_1) @ [a]\<rparr>"
proof -
  have h1: "faults world_1 = []"
    by (simp add: world_1_def)
  have h2: "inv_subscription invoice_pi_1 = Some ''sub_1''" and h3: "''sub_1'' \<noteq> []"
    and h5: "inv_payment_intent invoice_pi_1 = PI_id ''pi_1''"
    by (simp_all add: invoice_pi_1_def)
  have h4: "find (\<lambda>s. stripeSubscriptionId s = ''sub_1'') (subscriptions (db world_1)) = Some sub_1"
    by (simp add: scenario_defs)
  have h6: "\<forall>p \<in> set (payments (db world_1)). stripePaymentId p \<noteq> ''pi_1''"
    by (simp add: scenario_defs)
  have h7: "int32 (amount_paid invoice_pi_1)"
    by (simp add: invoice_pi_1_def int32_def)
  show ?thesis
    by (rule payment_redelivery [OF h1 h2 h3 h4 h5 h6 h7])
qed

subsection \<open>Payment row and activity entry are two writes\<close>







subsection \<open>Applying subscription snapshots\<close>

lemma find_update_first:
  "find P xs = Some x \<Longrightarrow> P (f x) \<Longrightarrow> find P (update_first P f xs) = Some (f x)"
  by (induction xs) (auto split: if_splits)

lemma update_first_twice:
  "(\<And>x. P x \<Longrightarrow> P (f x)) \<Longrightarrow>
   update_first P g (update_first P f xs) = update_first P (\<lambda>x. g (f x)) xs"
  by (induction xs) auto

text \<open>A status that is not a name of the schema's enum is refused by the client, the
  handler's \<open>catch\<close> logs the error, and no table changes.  Every status of the processor
  is such a string: the handler hands it over unchanged (\<open>subscription.status as any\<close>).\<close>

lemma processor_status_refused:
  "v \<in> set Stripe_Subscription_Status \<Longrightarrow> parse_status v = None"
  by (auto simp: Stripe_Subscription_Status_def parse_status_def)

lemma snapshot_status_not_written:
  assumes "parse_status (ss_status snap) = None"
  shows "db (snd (handleSubscriptionUpdate snap w)) = db w"
proof (cases "next_fault (faults w)")
  case True
  then show ?thesis
    by (simp add: handleSubscriptionUpdate_def io_defs)
next
  case False
  then show ?thesis
    using assms
    by (cases "find (\<lambda>s. stripeSubscriptionId s = ss_id snap) (subscriptions (db w))")
      (simp_all add: handleSubscriptionUpdate_def io_defs subscription_findUnique_def
        validated_def)
qed

text \<open>Had the status been spelt as the schema spells it, the handler would overwrite the
  seven fields of the row with the snapshot's values, and the later of two snapshots would
  win.\<close>

lemma snapshot_applied:
  assumes "faults w = []"
    and "find (\<lambda>s. stripeSubscriptionId s = ss_id snap) (subscriptions (db w)) = Some s0"
    and "parse_status (ss_status snap) = Some st"
    and "valid_Date (current_period_start snap * 1000)"
    and "valid_Date (current_period_end snap * 1000)"
    and "valid_optional_Date (optional_Date (canceled_at snap))"
    and "valid_optional_Date (optional_Date (trial_start snap))"
    and "valid_optional_Date (optional_Date (trial_end snap))"
  shows "db (snd (handleSubscriptionUpdate snap w)) =
           (db w)\<lparr>subscriptions := update_first (\<lambda>s. stripeSubscriptionId s = ss_id snap)
              (\<lambda>s. s\<lparr>sub_status := st,
                      currentPeriodStart := current_period_start snap * 1000,
                      currentPeriodEnd := current_period_end snap * 1000,
                      cancelAtPeriodEnd := cancel_at_period_end snap,
                      canceledAt := optional_Date (canceled_at snap),
                      trialStart := optional_Date (trial_start snap),
                      trialEnd := optional_Date (trial_end snap)\<rparr>) (subscriptions (db w))\<rparr>"
    and "faults (snd (handleSubscriptionUpdate snap w)) = []"
  using assms
  by (simp_all add: handleSubscriptionUpdate_def io_defs subscription_findUnique_def
      subscription_update_def validated_def)

lemma snapshot_overwrite_when_accepted:
  assumes "faults w = []"
    and "find (\<lambda>s. stripeSubscriptionId s = ref) (subscriptions (db w)) = Some s0"
    and "ss_id a = ref" and "ss_id b = ref"
    and "parse_status (ss_status a) = Some sa" and "parse_status (ss_status b) = Some sb"
    and va: "valid_Date (current_period_start a * 1000)"
      "valid_Date (current_period_end a * 1000)"
      "valid_optional_Date (optional_Date (canceled_at a))"
      "valid_optional_Date (optional_Date (trial_start a))"
      "valid_optional_Date (optional_Date (trial_end a))"
    and vb: "valid_Date (current_period_start b * 1000)"
      "valid_Date (current_period_end b * 1000)"
      "valid_optional_Date (optional_Date (canceled_at b))"
      "valid_optional_Date (optional_Date (trial_start b))"
      "valid_optional_Date (optional_Date (trial_end b))"
  shows "find (\<lambda>s. stripeSubscriptionId s = ref)
           (subscriptions (db (snd (handleSubscriptionUpdate b
              (snd (handleSubscriptionUpdate a w)))))) =
         Some (s0\<lparr>sub_status := sb,
                  currentPeriodStart := current_period_start b * 1000,
                  currentPeriodEnd := current_period_end b * 1000,
                  cancelAtPeriodEnd := cancel_at_period_end b,
                  canceledAt := optional_Date (canceled_at b),
                  trialStart := optional_Date (trial_start b),
                  trialEnd := optional_Date (trial_end b)\<rparr>) \<and>
         db (snd (handleSubscriptionUpdate b (snd (handleSubscriptionUpdate a w)))) =
         db (snd (handleSubscriptionUpdate b w))"
proof -
  let ?w1 = "snd (handleSubscriptionUpdate a w)"
  let ?fa = "\<lambda>s. s\<lparr>sub_status := sa,
                      currentPeriodStart := current_period_start a * 1000,
                      currentPeriodEnd := current_period_end a * 1000,
                      cancelAtPeriodEnd := cancel_at_period_end a,
                      canceledAt := optional_Date (canceled_at a),
                      trialStart := optional_Date (trial_start a),
                      trialEnd := optional_Date (trial_end a)\<rparr>"
  let ?fb = "\<lambda>s. s\<lparr>sub_status := sb,
                      currentPeriodStart := current_period_start b * 1000,
                      currentPeriodEnd := current_period_end b * 1000,
                      cancelAtPeriodEnd := cancel_at_period_end b,
                      canceledAt := optional_Date (canceled_at b),
                      trialStart := optional_Date (trial_start b),
                      trialEnd := optional_Date (trial_end b)\<rparr>"
  let ?key = "\<lambda>s. stripeSubscriptionId s = ref"
  have fa: "find (\<lambda>s. stripeSubscriptionId s = ss_id a) (subscriptions (db w)) = Some s0"
    and fb: "find (\<lambda>s. stripeSubscriptionId s = ss_id b) (subscriptions (db w)) = Some s0"
    using assms(2,3,4) by simp_all
  have key0: "?key s0"
    using assms(2) by (auto dest: find_Some_iff [THEN iffD1])
  have d1: "db ?w1 = (db w)\<lparr>subscriptions := update_first ?key ?fa (subscriptions (db w))\<rparr>"
    and f1: "faults ?w1 = []"
    using snapshot_applied [OF assms(1) fa assms(5) va] assms(3) by simp_all
  have found1: "find ?key (subscriptions (db ?w1)) = Some (?fa s0)"
    using find_update_first [OF assms(2), of ?fa] key0 by (simp add: d1)
  have fb1: "find (\<lambda>s. stripeSubscriptionId s = ss_id b) (subscriptions (db ?w1)) = Some (?fa s0)"
    using found1 assms(4) by simp
  have d2: "db (snd (handleSubscriptionUpdate b ?w1)) =
      (db w)\<lparr>subscriptions := update_first ?key (\<lambda>s. ?fb (?fa s)) (subscriptions (db w))\<rparr>"
    using snapshot_applied(1) [OF f1 fb1 assms(6) vb] assms(4)
    by (simp add: d1 update_first_twice)
  have same: "(\<lambda>s. ?fb (?fa s)) = ?fb"
    by (rule ext) simp
  have d2': "db (snd (handleSubscriptionUpdate b ?w1)) =
      (db w)\<lparr>subscriptions := update_first ?key ?fb (subscriptions (db w))\<rparr>"
    using d2 unfolding same .
  have alone: "db (snd (handleSubscriptionUpdate b w)) =
      (db w)\<lparr>subscriptions := update_first ?key ?fb (subscriptions (db w))\<rparr>"
    using snapshot_applied(1) [OF assms(1) fb assms(6) vb] assms(4) by simp
  have "find ?key (update_first ?key ?fb (subscriptions (db w))) = Some (?fb s0)"
    using find_update_first [OF assms(2), of ?fb] key0 by simp
  with d2' alone show ?thesis by simp
qed

text \<open>C4 fails on the code: the snapshots \<open>past_due\<close> and then \<open>canceled\<close> for the
  existing subscription \<open>sub_1\<close>, with the statuses as the processor spells them, are both
  refused; each refusal is logged by the handler's \<open>catch\<close>, and the row keeps its status
  ACTIVE instead of taking the status of the later snapshot.\<close>

theorem snapshot_status_refused:
  "ss_status snapshot_past_due \<in> set Stripe_Subscription_Status \<and>
   ss_status snapshot_canceled \<in> set Stripe_Subscription_Status \<and>
   find (\<lambda>s. stripeSubscriptionId s = ''sub_1'') (subscriptions (db world_1)) = Some sub_1 \<and>
   sub_status sub_1 = ACTIVE \<and>
   find (\<lambda>s. stripeSubscriptionId s = ''sub_1'')
     (subscriptions (db (snd (handleSubscriptionUpdate snapshot_canceled
        (snd (handleSubscriptionUpdate snapshot_past_due world_1)))))) = Some sub_1 \<and>
   db (snd (handleSubscriptionUpdate snapshot_canceled
        (snd (handleSubscriptionUpdate snapshot_past_due world_1)))) = db world_1 \<and>
   logs (snd (handleSubscriptionUpdate snapshot_canceled
        (snd (handleSubscriptionUpdate snapshot_past_due world_1)))) =
     [(Error, ''Error updating subscription''), (Error, ''Error updating subscription'')]"
  by (simp add: handleSubscriptionUpdate_def io_defs subscription_findUnique_def
      validated_def parse_status_def Stripe_Subscription_Status_def scenario_defs)


subsection \<open>Cancel and reactivate\<close>

text \<open>\<open>id\<close> is the primary key: the row that \<open>findFirst\<close> returns for the caller is the
  row that \<open>update({ where: { id } })\<close> changes.\<close>

lemma find_by_id:
  assumes "distinct (map sub_id xs)"
    and "find (\<lambda>s. sub_id s = i \<and> sub_userId s = u) xs = Some s"
  shows "find (\<lambda>s. sub_id s = i) xs = Some s"
  using assms
proof (induction xs)
  case Nil
  then show ?case by simp
next
  case (Cons x xs)
  show ?case
  proof (cases "sub_id x = i")
    case True
    have "sub_userId x = u"
    proof (rule ccontr)
      assume "sub_userId x \<noteq> u"
      with Cons.prems(2) have "find (\<lambda>s. sub_id s = i \<and> sub_userId s = u) xs = Some s"
        by simp
      then have "s \<in> set xs" "sub_id s = i"
        by (auto simp: find_Some_iff)
      with True Cons.prems(1) show False
        by (auto simp: image_iff)
    qed
    with True Cons.prems(2) show ?thesis by simp
  next
    case False
    with Cons show ?thesis by simp
  qed
qed

lemma reactivate_found:
  assumes "faults w = []"
    and "find (\<lambda>s. sub_id s = i \<and> sub_userId s = user_id user) (subscriptions (db w)) = Some s"
    and "find (\<lambda>s. sub_id s = i) (subscriptions (db w)) = Some s"
  shows "reactivate user i w =
    (if stripe_subscriptions_update (stripe w) (stripeSubscriptionId s) False
     then (Inr (Response 200 (JsonSubscription (s\<lparr>cancelAtPeriodEnd := False, canceledAt := None\<rparr>)
                  (find (\<lambda>p. plan_id p = sub_planId s) (plans (db w))))),
           w\<lparr>db := (db w)\<lparr>subscriptions := update_first (\<lambda>s. sub_id s = i)
                      (\<lambda>s. s\<lparr>cancelAtPeriodEnd := False, canceledAt := None\<rparr>) (subscriptions (db w)),
                    userActivities := userActivities (db w) @
                      [\<lparr>act_userId = user_id user,
                        action = ''SUBSCRIPTION_REACTIVATED'',
                        act_description = [Lit ''Reactivated subscription: '', Lit (sub_id s)],
                        metadata = [(''subscriptionId'', JString (sub_id s))]\<rparr>]\<rparr>,
             logs := logs w @ [(Info, ''Subscription reactivated'')]\<rparr>)
     else (Inr (Response 500 (JsonError ''Server error'')),
           w\<lparr>logs := logs w @ [(Error, ''Reactivate subscription error'')]\<rparr>))"
  using assms
  by (simp add: reactivate_def io_defs subscription_findFirst_def subscription_update_def
      userActivity_create_def include_plan_def accepted_def)

lemma cancel_found:
  assumes "faults w = []"
    and "find (\<lambda>s. sub_id s = i \<and> sub_userId s = user_id user) (subscriptions (db w)) = Some s"
    and "find (\<lambda>s. sub_id s = i) (subscriptions (db w)) = Some s"
    and "stripe_subscriptions_update (stripe w) (stripeSubscriptionId s) True"
  shows "cancel user i (Some True) w =
     (Inr (Response 200 (JsonSubscription (s\<lparr>cancelAtPeriodEnd := True\<rparr>)
                  (find (\<lambda>p. plan_id p = sub_planId s) (plans (db w))))),
           w\<lparr>db := (db w)\<lparr>subscriptions := update_first (\<lambda>s. sub_id s = i)
                      (\<lambda>t. t\<lparr>cancelAtPeriodEnd := True, sub_status := sub_status s\<rparr>) (subscriptions (db w)),
                    userActivities := userActivities (db w) @
                      [\<lparr>act_userId = user_id user,
                        action = ''SUBSCRIPTION_CANCELED'',
                        act_description = [Lit ''Canceled subscription: '', Lit (sub_id s)],
                        metadata = [(''subscriptionId'', JString (sub_id s)),
                                    (''cancelAtPeriodEnd'', JBool True)]\<rparr>]\<rparr>,
             logs := logs w @ [(Info, ''Subscription canceled'')]\<rparr>)"
  using assms
  by (simp add: cancel_def io_defs subscription_findFirst_def subscription_update_def
      userActivity_create_def include_plan_def accepted_def)


lemma update_first_fixed:
  "find P xs = Some x \<Longrightarrow> f x = x \<Longrightarrow> update_first P f xs = xs"
  by (induction xs) (auto split: if_splits)

lemma find_P: "find P xs = Some x \<Longrightarrow> P x"
  by (auto simp: find_Some_iff)

lemma find_other_update_first:
  "find P xs = Some x \<Longrightarrow> find Q xs = Some x \<Longrightarrow> Q (f x) \<Longrightarrow>
   find Q (update_first P f xs) = Some (f x)"
proof (induction xs)
  case Nil
  then show ?case by simp
next
  case (Cons y ys)
  show ?case
  proof (cases "P y")
    case True
    with Cons.prems show ?thesis by simp
  next
    case False
    with Cons.prems(1) have p: "find P ys = Some x" by simp
    have "\<not> Q y"
    proof
      assume "Q y"
      with Cons.prems(2) have "x = y" by simp
      with find_P [OF p] False show False by simp
    qed
    with Cons.prems(2) have "find Q ys = Some x" by simp
    with Cons.IH [OF p _ Cons.prems(3)] False \<open>\<not> Q y\<close> show ?thesis by simp
  qed
qed

text \<open>C5: for a Subscription of the caller with status ACTIVE, cancel flag false and no
  canceled-at, \<open>cancel\<close> with \<open>cancelAtPeriodEnd = true\<close> answers the row with the flag
  set and the status still ACTIVE, and a following \<open>reactivate\<close> answers the original
  row: the subscriptions table is again what it was.  The processor accepts both updates
  and the database calls do not fail.\<close>

theorem cancel_reactivate_round_trip:
  assumes "faults w = []"
    and "distinct (map sub_id (subscriptions (db w)))"
    and "find (\<lambda>s. sub_id s = i \<and> sub_userId s = user_id user) (subscriptions (db w)) = Some s"
    and "sub_status s = ACTIVE" and "cancelAtPeriodEnd s = False" and "canceledAt s = None"
    and "stripe_subscriptions_update (stripe w) (stripeSubscriptionId s) True"
    and "stripe_subscriptions_update (stripe w) (stripeSubscriptionId s) False"
  shows "fst (cancel user i (Some True) w) =
           Inr (Response 200 (JsonSubscription (s\<lparr>cancelAtPeriodEnd := True\<rparr>)
             (find (\<lambda>p. plan_id p = sub_planId s) (plans (db w))))) \<and>
         find (\<lambda>s. sub_id s = i) (subscriptions (db (snd (cancel user i (Some True) w)))) =
           Some (s\<lparr>cancelAtPeriodEnd := True\<rparr>) \<and>
         sub_status (s\<lparr>cancelAtPeriodEnd := True\<rparr>) = ACTIVE \<and>
         fst (reactivate user i (snd (cancel user i (Some True) w))) =
           Inr (Response 200 (JsonSubscription s
             (find (\<lambda>p. plan_id p = sub_planId s) (plans (db w))))) \<and>
         subscriptions (db (snd (reactivate user i (snd (cancel user i (Some True) w))))) =
           subscriptions (db w)"
proof -
  let ?w1 = "snd (cancel user i (Some True) w)"
  let ?key = "\<lambda>s. sub_id s = i"
  let ?c = "\<lambda>t. t\<lparr>cancelAtPeriodEnd := True, sub_status := sub_status s\<rparr>"
  let ?r = "\<lambda>s. s\<lparr>cancelAtPeriodEnd := False, canceledAt := None\<rparr>"
  have by_id: "find ?key (subscriptions (db w)) = Some s"
    by (rule find_by_id [OF assms(2,3)])
  have s_in: "s \<in> set (subscriptions (db w))" and key_s: "sub_id s = i"
    and own_s: "sub_userId s = user_id user"
    using assms(3) by (auto simp: find_Some_iff)
  have cs: "?c s = s\<lparr>cancelAtPeriodEnd := True\<rparr>"
    by simp
  note c = cancel_found [OF assms(1,3) by_id assms(7)]
  have subs1: "subscriptions (db ?w1) = update_first ?key ?c (subscriptions (db w))"
    and plans1: "plans (db ?w1) = plans (db w)" and faults1: "faults ?w1 = []"
    and stripe1: "stripe ?w1 = stripe w"
    using assms(1) by (simp_all add: c)
  have by_id1: "find ?key (subscriptions (db ?w1)) = Some (s\<lparr>cancelAtPeriodEnd := True\<rparr>)"
    using find_update_first [OF by_id, of ?c] key_s by (simp add: subs1)
  have owned1: "find (\<lambda>s. sub_id s = i \<and> sub_userId s = user_id user) (subscriptions (db ?w1)) =
      Some (s\<lparr>cancelAtPeriodEnd := True\<rparr>)"
    using find_other_update_first [OF by_id assms(3), of ?c] key_s own_s by (simp add: subs1)
  note r = reactivate_found [OF faults1 owned1 by_id1]
  have restored: "update_first ?key ?r (update_first ?key ?c (subscriptions (db w))) =
      subscriptions (db w)"
  proof -
    have "update_first ?key ?r (update_first ?key ?c (subscriptions (db w))) =
        update_first ?key (\<lambda>t. ?r (?c t)) (subscriptions (db w))"
      by (rule update_first_twice) simp
    also have "\<dots> = subscriptions (db w)"
      using assms(4,5,6) by (intro update_first_fixed [OF by_id]) simp
    finally show ?thesis .
  qed
  have rs: "?r (s\<lparr>cancelAtPeriodEnd := True\<rparr>) = s"
    using assms(5,6) by simp
  have resp1: "fst (cancel user i (Some True) w) =
      Inr (Response 200 (JsonSubscription (s\<lparr>cancelAtPeriodEnd := True\<rparr>)
        (find (\<lambda>p. plan_id p = sub_planId s) (plans (db w)))))"
    by (simp add: c)
  have accepted2: "stripe_subscriptions_update (stripe ?w1)
      (stripeSubscriptionId (s\<lparr>cancelAtPeriodEnd := True\<rparr>)) False"
    using assms(8) by (simp add: stripe1)
  have resp2: "fst (reactivate user i ?w1) =
      Inr (Response 200 (JsonSubscription s
        (find (\<lambda>p. plan_id p = sub_planId s) (plans (db w)))))"
    using accepted2 rs by (simp add: r plans1)
  have subs2: "subscriptions (db (snd (reactivate user i ?w1))) = subscriptions (db w)"
    using accepted2 restored by (simp add: r subs1)
  show ?thesis
    using resp1 by_id1 assms(4) resp2 subs2 by simp
qed


theorem cancel_reactivate_round_trip_witness:
  "fst (cancel user_u1 ''s1'' (Some True) world_1) =
     Inr (Response 200 (JsonSubscription (sub_1\<lparr>cancelAtPeriodEnd := True\<rparr>)
       (find (\<lambda>p. plan_id p = sub_planId sub_1) (plans (db world_1))))) \<and>
   find (\<lambda>s. sub_id s = ''s1'') (subscriptions (db (snd (cancel user_u1 ''s1'' (Some True) world_1)))) =
     Some (sub_1\<lparr>cancelAtPeriodEnd := True\<rparr>) \<and>
   sub_status (sub_1\<lparr>cancelAtPeriodEnd := True\<rparr>) = ACTIVE \<and>
   fst (reactivate user_u1 ''s1'' (snd (cancel user_u1 ''s1'' (Some True) world_1))) =
     Inr (Response 200 (JsonSubscription sub_1
       (find (\<lambda>p. plan_id p = sub_planId sub_1) (plans (db world_1))))) \<and>
   subscriptions (db (snd (reactivate user_u1 ''s1'' (snd (cancel user_u1 ''s1'' (Some True) world_1))))) =
     subscriptions (db world_1)"
proof -
  have h1: "faults world_1 = []"
    by (simp add: world_1_def)
  have h2: "distinct (map sub_id (subscriptions (db world_1)))"
    by (simp add: scenario_defs)
  have h3: "find (\<lambda>s. sub_id s = ''s1'' \<and> sub_userId s = user_id user_u1)
      (subscriptions (db world_1)) = Some sub_1"
    by (simp add: scenario_defs)
  have h4: "sub_status sub_1 = ACTIVE" and h5: "cancelAtPeriodEnd sub_1 = False"
    and h6: "canceledAt sub_1 = None"
    by (simp_all add: sub_1_def)
  have h7: "stripe_subscriptions_update (stripe world_1) (stripeSubscriptionId sub_1) True"
    and h8: "stripe_subscriptions_update (stripe world_1) (stripeSubscriptionId sub_1) False"
    by (simp_all add: world_1_def stripe_accepts_def)
  show ?thesis
    by (rule cancel_reactivate_round_trip [OF h1 h2 h3 h4 h5 h6 h7 h8])
qed

text \<open>C3 (amended): \<open>reactivate\<close> does not look at the status.  For a CANCELED
  Subscription of the caller with the cancel flag set: when the processor accepts the
  update, the answer is the success response and the row loses its cancel flag and its
  canceled-at, the status staying CANCELED; when the processor refuses, the answer is
  500 \<open>Server error\<close> and no table changes.\<close>

theorem reactivate_canceled:
  assumes "faults w = []"
    and "distinct (map sub_id (subscriptions (db w)))"
    and "find (\<lambda>s. sub_id s = i \<and> sub_userId s = user_id user) (subscriptions (db w)) = Some s"
    and "sub_status s = CANCELED" and "cancelAtPeriodEnd s"
  shows "(stripe_subscriptions_update (stripe w) (stripeSubscriptionId s) False \<longrightarrow>
           fst (reactivate user i w) =
             Inr (Response 200 (JsonSubscription (s\<lparr>cancelAtPeriodEnd := False, canceledAt := None\<rparr>)
               (find (\<lambda>p. plan_id p = sub_planId s) (plans (db w))))) \<and>
           find (\<lambda>s. sub_id s = i) (subscriptions (db (snd (reactivate user i w)))) =
             Some (s\<lparr>cancelAtPeriodEnd := False, canceledAt := None\<rparr>) \<and>
           sub_status (s\<lparr>cancelAtPeriodEnd := False, canceledAt := None\<rparr>) = CANCELED) \<and>
         (\<not> stripe_subscriptions_update (stripe w) (stripeSubscriptionId s) False \<longrightarrow>
           fst (reactivate user i w) = Inr (Response 500 (JsonError ''Server error'')) \<and>
           db (snd (reactivate user i w)) = db w)"
proof -
  have by_id: "find (\<lambda>s. sub_id s = i) (subscriptions (db w)) = Some s"
    by (rule find_by_id [OF assms(2,3)])
  have key_s: "sub_id s = i"
    using by_id by (rule find_P)
  note r = reactivate_found [OF assms(1,3) by_id]
  have "find (\<lambda>s. sub_id s = i) (update_first (\<lambda>s. sub_id s = i)
      (\<lambda>s. s\<lparr>cancelAtPeriodEnd := False, canceledAt := None\<rparr>) (subscriptions (db w))) =
      Some (s\<lparr>cancelAtPeriodEnd := False, canceledAt := None\<rparr>)"
    using find_update_first [OF by_id, of "\<lambda>s. s\<lparr>cancelAtPeriodEnd := False, canceledAt := None\<rparr>"]
      key_s by simp
  then show ?thesis
    using assms(4) by (simp add: r)
qed

theorem reactivate_canceled_witness:
  "fst (reactivate user_u1 ''s1'' world_canceled) =
     Inr (Response 200 (JsonSubscription
       (sub_canceled\<lparr>cancelAtPeriodEnd := False, canceledAt := None\<rparr>)
       (find (\<lambda>p. plan_id p = sub_planId sub_canceled) (plans (db world_canceled))))) \<and>
   find (\<lambda>s. sub_id s = ''s1'') (subscriptions (db (snd (reactivate user_u1 ''s1'' world_canceled)))) =
     Some (sub_canceled\<lparr>cancelAtPeriodEnd := False, canceledAt := None\<rparr>) \<and>
   sub_status (sub_canceled\<lparr>cancelAtPeriodEnd := False, canceledAt := None\<rparr>) = CANCELED"
proof -
  have h1: "faults world_canceled = []"
    by (simp add: scenario_defs)
  have h2: "distinct (map sub_id (subscriptions (db world_canceled)))"
    by (simp add: scenario_defs)
  have h3: "find (\<lambda>s. sub_id s = ''s1'' \<and> sub_userId s = user_id user_u1)
      (subscriptions (db world_canceled)) = Some sub_canceled"
    by (simp add: scenario_defs)
  have h4: "sub_status sub_canceled = CANCELED" and h5: "cancelAtPeriodEnd sub_canceled"
    by (simp_all add: sub_canceled_def)
  have h6: "stripe_subscriptions_update (stripe world_canceled)
      (stripeSubscriptionId sub_canceled) False"
    by (simp add: scenario_defs)
  show ?thesis
    using reactivate_canceled [OF h1 h2 h3 h4 h5] h6 by blast
qed

text \<open>C3 fails as stated: reactivating the canceled \<open>sub_1\<close> succeeds and changes its
  row when the processor accepts, and is answered by the generic 500 when it refuses.\<close>

theorem reactivate_canceled_changes_state:
  "sub_status sub_canceled = CANCELED \<and> cancelAtPeriodEnd sub_canceled \<and>
   find (\<lambda>s. sub_id s = ''s1'' \<and> sub_userId s = user_id user_u1)
     (subscriptions (db world_canceled)) = Some sub_canceled \<and>
   fst (reactivate user_u1 ''s1'' world_canceled) =
     Inr (Response 200 (JsonSubscription
       (sub_canceled\<lparr>cancelAtPeriodEnd := False, canceledAt := None\<rparr>) (Some plan_basic))) \<and>
   subscriptions (db (snd (reactivate user_u1 ''s1'' world_canceled))) =
     [sub_canceled\<lparr>cancelAtPeriodEnd := False, canceledAt := None\<rparr>] \<and>
   subscriptions (db (snd (reactivate user_u1 ''s1'' world_canceled))) \<noteq>
     subscriptions (db world_canceled) \<and>
   fst (reactivate user_u1 ''s1'' world_canceled_refused) =
     Inr (Response 500 (JsonError ''Server error''))"
  by (simp add: reactivate_def io_defs subscription_findFirst_def subscription_update_def
      userActivity_create_def include_plan_def accepted_def scenario_defs)


subsection \<open>Subscriptions of other users\<close>

lemma find_filter: "find (\<lambda>s. P s \<and> Q s) xs = find P (filter Q xs)"
  by (induction xs) auto

lemma reactivate_two_runs:
  assumes "find (\<lambda>s. sub_id s = i \<and> sub_userId s = user_id user) (subscriptions (db w1)) = found"
    and "find (\<lambda>s. sub_id s = i \<and> sub_userId s = user_id user) (subscriptions (db w2)) = found"
    and "\<And>s. found = Some s \<Longrightarrow> find (\<lambda>s. sub_id s = i) (subscriptions (db w1)) = Some s"
    and "\<And>s. found = Some s \<Longrightarrow> find (\<lambda>s. sub_id s = i) (subscriptions (db w2)) = Some s"
    and "plans (db w1) = plans (db w2)" and "faults w1 = faults w2" and "stripe w1 = stripe w2"
  shows "fst (reactivate user i w1) = fst (reactivate user i w2)"
proof (cases found)
  case None
  with assms(1,2,6) show ?thesis
    by (simp add: reactivate_def io_defs subscription_findFirst_def)
next
  case (Some s)
  with assms(1,2) assms(3,4) [OF Some] assms(5,6,7) show ?thesis
    by (simp add: reactivate_def io_defs subscription_findFirst_def subscription_update_def
      userActivity_create_def include_plan_def accepted_def)
qed

lemma cancel_two_runs:
  assumes "find (\<lambda>s. sub_id s = i \<and> sub_userId s = user_id user) (subscriptions (db w1)) = found"
    and "find (\<lambda>s. sub_id s = i \<and> sub_userId s = user_id user) (subscriptions (db w2)) = found"
    and "\<And>s. found = Some s \<Longrightarrow> find (\<lambda>s. sub_id s = i) (subscriptions (db w1)) = Some s"
    and "\<And>s. found = Some s \<Longrightarrow> find (\<lambda>s. sub_id s = i) (subscriptions (db w2)) = Some s"
    and "plans (db w1) = plans (db w2)" and "faults w1 = faults w2" and "stripe w1 = stripe w2"
    and "clock w1 = clock w2"
  shows "fst (cancel user i flag w1) = fst (cancel user i flag w2)"
proof (cases found)
  case None
  with assms(1,2,6) show ?thesis
    by (simp add: cancel_def io_defs subscription_findFirst_def)
next
  case (Some s)
  with assms(1,2) assms(3,4) [OF Some] assms(5,6,7,8) show ?thesis
    by (simp add: cancel_def io_defs subscription_findFirst_def subscription_update_def
      userActivity_create_def include_plan_def accepted_def)
qed

lemma not_owned_not_found:
  assumes "\<forall>s \<in> set (subscriptions (db w)). sub_id s = i \<longrightarrow> sub_userId s \<noteq> user_id user"
    and "\<not> next_fault (faults w)"
  shows "fst (cancel user i flag w) = Inr (Response 404 (JsonError ''Subscription not found''))"
    and "fst (reactivate user i w) = Inr (Response 404 (JsonError ''Subscription not found''))"
    and "db (snd (cancel user i flag w)) = db w"
    and "db (snd (reactivate user i w)) = db w"
proof -
  have "find (\<lambda>s. sub_id s = i \<and> sub_userId s = user_id user) (subscriptions (db w)) = None"
    using assms(1) by (auto simp: find_None_iff)
  with assms(2) show
    "fst (cancel user i flag w) = Inr (Response 404 (JsonError ''Subscription not found''))"
    "fst (reactivate user i w) = Inr (Response 404 (JsonError ''Subscription not found''))"
    "db (snd (cancel user i flag w)) = db w"
    "db (snd (reactivate user i w)) = db w"
    by (simp_all add: cancel_def reactivate_def io_defs subscription_findFirst_def)
qed

text \<open>C9: \<open>cancel\<close> and \<open>reactivate\<close> look the Subscription up by id and owner.  Two
  runs that differ only in the subscriptions of other users (same rows of the caller, same
  plans, processor, clock and database failures) give the caller the same response; and
  when no row with the requested id belongs to the caller, the response is 404
  \<open>Subscription not found\<close> and no table changes, whether or not another user owns a row
  with that id.\<close>

theorem foreign_subscriptions_unobservable:
  assumes "filter (\<lambda>s. sub_userId s = user_id user) (subscriptions (db w1)) =
           filter (\<lambda>s. sub_userId s = user_id user) (subscriptions (db w2))"
    and "distinct (map sub_id (subscriptions (db w1)))"
    and "distinct (map sub_id (subscriptions (db w2)))"
    and "plans (db w1) = plans (db w2)" and "faults w1 = faults w2" and "stripe w1 = stripe w2"
    and "clock w1 = clock w2"
  shows "fst (cancel user i flag w1) = fst (cancel user i flag w2) \<and>
         fst (reactivate user i w1) = fst (reactivate user i w2) \<and>
         ((\<forall>s \<in> set (subscriptions (db w1)). sub_id s = i \<longrightarrow> sub_userId s \<noteq> user_id user) \<and>
          \<not> next_fault (faults w1) \<longrightarrow>
            fst (cancel user i flag w1) = Inr (Response 404 (JsonError ''Subscription not found'')) \<and>
            fst (reactivate user i w1) = Inr (Response 404 (JsonError ''Subscription not found'')) \<and>
            db (snd (cancel user i flag w1)) = db w1 \<and>
            db (snd (reactivate user i w1)) = db w1)"
proof -
  let ?owned = "\<lambda>s. sub_id s = i \<and> sub_userId s = user_id user"
  have same: "find ?owned (subscriptions (db w1)) = find ?owned (subscriptions (db w2))"
    using assms(1) by (simp add: find_filter)
  have id1: "find (\<lambda>s. sub_id s = i) (subscriptions (db w1)) = Some s"
    if "find ?owned (subscriptions (db w2)) = Some s" for s
    using that same find_by_id [OF assms(2)] by simp
  have id2: "find (\<lambda>s. sub_id s = i) (subscriptions (db w2)) = Some s"
    if "find ?owned (subscriptions (db w2)) = Some s" for s
    using that find_by_id [OF assms(3)] by simp
  have c: "fst (cancel user i flag w1) = fst (cancel user i flag w2)"
    by (rule cancel_two_runs [OF same refl id1 id2 assms(4-7)])
  have r: "fst (reactivate user i w1) = fst (reactivate user i w2)"
    by (rule reactivate_two_runs [OF same refl id1 id2 assms(4-6)])
  show ?thesis
  proof (intro conjI impI)
    assume "(\<forall>s \<in> set (subscriptions (db w1)). sub_id s = i \<longrightarrow> sub_userId s \<noteq> user_id user) \<and>
          \<not> next_fault (faults w1)"
    then have a: "\<forall>s \<in> set (subscriptions (db w1)). sub_id s = i \<longrightarrow> sub_userId s \<noteq> user_id user"
      and b: "\<not> next_fault (faults w1)"
      by simp_all
    show "fst (cancel user i flag w1) = Inr (Response 404 (JsonError ''Subscription not found''))"
      by (rule not_owned_not_found(1) [OF a b])
    show "fst (reactivate user i w1) = Inr (Response 404 (JsonError ''Subscription not found''))"
      by (rule not_owned_not_found(2) [OF a b])
    show "db (snd (cancel user i flag w1)) = db w1"
      by (rule not_owned_not_found(3) [OF a b])
    show "db (snd (reactivate user i w1)) = db w1"
      by (rule not_owned_not_found(4) [OF a b])
  qed (rule c, rule r)
qed

theorem foreign_subscriptions_unobservable_witness:
  "fst (cancel user_u1 ''s2'' None world_2) = fst (cancel user_u1 ''s2'' None world_1) \<and>
   fst (reactivate user_u1 ''s2'' world_2) = fst (reactivate user_u1 ''s2'' world_1) \<and>
   fst (cancel user_u1 ''s2'' None world_2) = Inr (Response 404 (JsonError ''Subscription not found'')) \<and>
   fst (reactivate user_u1 ''s2'' world_2) = Inr (Response 404 (JsonError ''Subscription not found'')) \<and>
   db (snd (cancel user_u1 ''s2'' None world_2)) = db world_2 \<and>
   db (snd (reactivate user_u1 ''s2'' world_2)) = db world_2"
proof -
  have h1: "filter (\<lambda>s. sub_userId s = user_id user_u1) (subscriptions (db world_2)) =
           filter (\<lambda>s. sub_userId s = user_id user_u1) (subscriptions (db world_1))"
    by (simp add: scenario_defs)
  have h2: "distinct (map sub_id (subscriptions (db world_2)))"
    and h3: "distinct (map sub_id (subscriptions (db world_1)))"
    by (simp_all add: scenario_defs)
  have h4: "plans (db world_2) = plans (db world_1)" and h5: "faults world_2 = faults world_1"
    and h6: "stripe world_2 = stripe world_1" and h7: "clock world_2 = clock world_1"
    by (simp_all add: world_2_def world_1_def database_1_def)
  have h8: "\<forall>s \<in> set (subscriptions (db world_2)). sub_id s = ''s2'' \<longrightarrow> sub_userId s \<noteq> user_id user_u1"
    and h9: "\<not> next_fault (faults world_2)"
    by (simp_all add: scenario_defs)
  show ?thesis
    using foreign_subscriptions_unobservable [OF h1 h2 h3 h4 h5 h6 h7, of "''s2''" None] h8 h9
    by blast
qed


subsection \<open>Creating a subscription that the processor refuses\<close>

lemma refused_creation_cases:
  assumes "\<forall>c p. stripe_subscriptions_create (stripe w) c p = None"
  shows "(fst (create user planId paymentMethodId w) =
            Inr (if \<not> next_fault (faults w) \<and> find (\<lambda>p. plan_id p = planId) (plans (db w)) = None
                 then Response 404 (JsonError ''Plan not found'')
                 else Response 500 (JsonError ''Server error''))) \<and>
         (db (snd (create user planId paymentMethodId w)) = db w \<or>
          (\<exists>c. db (snd (create user planId paymentMethodId w)) =
             (db w)\<lparr>users := update_first (\<lambda>u. user_id u = user_id user)
                (\<lambda>u. u\<lparr>stripeCustomerId := Some c\<rparr>) (users (db w))\<rparr>))"
proof (cases "next_fault (faults w)")
  case True
  then show ?thesis
    by (simp add: create_def io_defs)
next
  case nofault: False
  show ?thesis
  proof (cases "find (\<lambda>p. plan_id p = planId) (plans (db w))")
    case None
    with nofault show ?thesis
      by (simp add: create_def io_defs plan_findUnique_def)
  next
    case (Some plan)
    show ?thesis
    proof (cases "truthy (stripeCustomerId user)")
      case known: (Some c)
      with nofault Some assms show ?thesis
        by (simp add: create_def io_defs plan_findUnique_def accepted_def)
    next
      case None
      with nofault Some assms show ?thesis
        apply (simp add: create_def io_defs plan_findUnique_def accepted_def
            user_update_stripeCustomerId_def split: option.splits)
        apply blast
        done
    qed
  qed
qed


text \<open>C6 (amended): when the processor refuses to create the subscription, \<open>create\<close>
  writes no Subscription row and no UserActivity entry, and leaves payments and plans
  alone; the only table that may change is \<open>users\<close>, by the link of the caller to a
  newly created processor customer, which is written before the subscription is requested.
  The answer is the generic 500 \<open>Server error\<close> (or 404 when the plan is unknown and the
  processor is never called).\<close>

theorem create_refused:
  assumes "\<forall>c p. stripe_subscriptions_create (stripe w) c p = None"
  shows "subscriptions (db (snd (create user planId paymentMethodId w))) = subscriptions (db w) \<and>
         userActivities (db (snd (create user planId paymentMethodId w))) = userActivities (db w) \<and>
         payments (db (snd (create user planId paymentMethodId w))) = payments (db w) \<and>
         plans (db (snd (create user planId paymentMethodId w))) = plans (db w) \<and>
         (users (db (snd (create user planId paymentMethodId w))) = users (db w) \<or>
          (\<exists>c. users (db (snd (create user planId paymentMethodId w))) =
             update_first (\<lambda>u. user_id u = user_id user)
               (\<lambda>u. u\<lparr>stripeCustomerId := Some c\<rparr>) (users (db w)))) \<and>
         fst (create user planId paymentMethodId w) =
           Inr (if \<not> next_fault (faults w) \<and>
                   find (\<lambda>p. plan_id p = planId) (plans (db w)) = None
                then Response 404 (JsonError ''Plan not found'')
                else Response 500 (JsonError ''Server error''))"
proof -
  from refused_creation_cases [OF assms, of user planId paymentMethodId]
  have resp: "fst (create user planId paymentMethodId w) =
            Inr (if \<not> next_fault (faults w) \<and> find (\<lambda>p. plan_id p = planId) (plans (db w)) = None
                 then Response 404 (JsonError ''Plan not found'')
                 else Response 500 (JsonError ''Server error''))"
    and tables: "db (snd (create user planId paymentMethodId w)) = db w \<or>
          (\<exists>c. db (snd (create user planId paymentMethodId w)) =
             (db w)\<lparr>users := update_first (\<lambda>u. user_id u = user_id user)
                (\<lambda>u. u\<lparr>stripeCustomerId := Some c\<rparr>) (users (db w))\<rparr>)"
    by simp_all
  from tables show ?thesis
  proof
    assume "db (snd (create user planId paymentMethodId w)) = db w"
    with resp show ?thesis by simp
  next
    assume "\<exists>c. db (snd (create user planId paymentMethodId w)) =
             (db w)\<lparr>users := update_first (\<lambda>u. user_id u = user_id user)
                (\<lambda>u. u\<lparr>stripeCustomerId := Some c\<rparr>) (users (db w))\<rparr>"
    then obtain c where "db (snd (create user planId paymentMethodId w)) =
             (db w)\<lparr>users := update_first (\<lambda>u. user_id u = user_id user)
                (\<lambda>u. u\<lparr>stripeCustomerId := Some c\<rparr>) (users (db w))\<rparr>" ..
    with resp show ?thesis by auto
  qed
qed

theorem create_refused_witness:
  "subscriptions (db (snd (create user_u1 ''plan_basic'' ''pm_1'' world_refused))) =
     subscriptions (db world_refused) \<and>
   userActivities (db (snd (create user_u1 ''plan_basic'' ''pm_1'' world_refused))) =
     userActivities (db world_refused) \<and>
   payments (db (snd (create user_u1 ''plan_basic'' ''pm_1'' world_refused))) =
     payments (db world_refused) \<and>
   plans (db (snd (create user_u1 ''plan_basic'' ''pm_1'' world_refused))) =
     plans (db world_refused) \<and>
   (users (db (snd (create user_u1 ''plan_basic'' ''pm_1'' world_refused))) =
      users (db world_refused) \<or>
    (\<exists>c. users (db (snd (create user_u1 ''plan_basic'' ''pm_1'' world_refused))) =
       update_first (\<lambda>u. user_id u = user_id user_u1)
         (\<lambda>u. u\<lparr>stripeCustomerId := Some c\<rparr>) (users (db world_refused)))) \<and>
   fst (create user_u1 ''plan_basic'' ''pm_1'' world_refused) =
     Inr (if \<not> next_fault (faults world_refused) \<and>
             find (\<lambda>p. plan_id p = ''plan_basic'') (plans (db world_refused)) = None
          then Response 404 (JsonError ''Plan not found'')
          else Response 500 (JsonError ''Server error''))"
proof -
  have h: "\<forall>c p. stripe_subscriptions_create (stripe world_refused) c p = None"
    by (simp add: world_refused_def)
  show ?thesis
    by (rule create_refused [OF h])
qed

text \<open>C6 fails as stated: for a user without processor customer, the refused creation
  leaves the user's new \<open>stripeCustomerId\<close> committed.\<close>

theorem create_refused_links_customer:
  "stripe_subscriptions_create (stripe world_refused) ''cus_1'' ''price_basic'' = None \<and>
   fst (create user_u1 ''plan_basic'' ''pm_1'' world_refused) =
     Inr (Response 500 (JsonError ''Server error'')) \<and>
   users (db world_refused) = [user_u1, user_u2] \<and>
   users (db (snd (create user_u1 ''plan_basic'' ''pm_1'' world_refused))) =
     [user_u1\<lparr>stripeCustomerId := Some ''cus_1''\<rparr>, user_u2] \<and>
   db (snd (create user_u1 ''plan_basic'' ''pm_1'' world_refused)) \<noteq> db world_refused"
  by (simp add: create_def io_defs plan_findUnique_def accepted_def truthy_def
      user_update_stripeCustomerId_def scenario_defs)

end
